theory Spec2Isabelle
  imports Complex_Main "HOL-Library.Log_Nat"
begin

section \<open>Floating-point arithmetic of the duration heuristics\<close>

text \<open>
  The rate limiters of \<^verbatim>\<open>AidlPowerHalWrapper\<close> compare relative deviations that are
  computed in \<^verbatim>\<open>double\<close>, and the proportional adjustment is computed in
  \<^verbatim>\<open>long double\<close>. A binary floating-point number of precision \<open>p\<close> is modelled by
  the rational it denotes; \<open>fl p\<close> rounds a rational to the nearest number with a
  \<open>p\<close>-bit significand, ties to the even significand. The exponent is not bounded: the
  operands are quotients and products of 64-bit integers, which stay inside the normal
  range of every format concerned. Division by zero produces the IEEE specials.
\<close>

definition round_even :: "rat \<Rightarrow> int" where
  "round_even x = (let f = \<lfloor>x\<rfloor>; r = x - of_int f in
     if r < 1 / 2 then f else if 1 / 2 < r then f + 1 else if even f then f else f + 1)"

definition pow2 :: "int \<Rightarrow> rat" where
  "pow2 e = (if 0 \<le> e then 2 ^ nat e else 1 / 2 ^ nat (- e))"

definition fl :: "nat \<Rightarrow> rat \<Rightarrow> rat" where
  "fl p x = (if x = 0 then 0 else
     let a = \<bar>x\<bar>;
         k = bitlen (fst (quotient_of a)) - bitlen (snd (quotient_of a));
         e = (if pow2 k \<le> a then k else k - 1);
         s = int p - 1 - e
     in sgn x * of_int (round_even (a * pow2 s)) / pow2 s)"

datatype fp = Finite rat | PlusInf | MinusInf | NaN

text \<open>\<^verbatim>\<open>static_cast<double>(i)\<close> of a 64-bit integer.\<close>

definition fp_of_int :: "nat \<Rightarrow> int \<Rightarrow> rat" where
  "fp_of_int p i = fl p (of_int i)"

text \<open>\<^verbatim>\<open>x / y\<close> of two finite numbers.\<close>

definition fp_div :: "nat \<Rightarrow> rat \<Rightarrow> rat \<Rightarrow> fp" where
  "fp_div p x y =
     (if y \<noteq> 0 then Finite (fl p (x / y))
      else if 0 < x then PlusInf else if x < 0 then MinusInf else NaN)"

text \<open>\<^verbatim>\<open>1.0 - x\<close>.\<close>

fun fp_one_minus :: "nat \<Rightarrow> fp \<Rightarrow> fp" where
  "fp_one_minus p (Finite x) = Finite (fl p (1 - x))"
| "fp_one_minus p PlusInf = MinusInf"
| "fp_one_minus p MinusInf = PlusInf"
| "fp_one_minus p NaN = NaN"

text \<open>\<^verbatim>\<open>abs(x)\<close> at type \<^verbatim>\<open>double\<close>.\<close>

fun fp_abs :: "fp \<Rightarrow> fp" where
  "fp_abs (Finite x) = Finite \<bar>x\<bar>"
| "fp_abs PlusInf = PlusInf"
| "fp_abs MinusInf = PlusInf"
| "fp_abs NaN = NaN"

text \<open>\<^verbatim>\<open>x >= t\<close> for a finite constant \<open>t\<close>; every comparison with a NaN is false.\<close>

fun fp_ge :: "fp \<Rightarrow> rat \<Rightarrow> bool" where
  "fp_ge (Finite x) t = (t \<le> x)"
| "fp_ge PlusInf t = True"
| "fp_ge MinusInf t = False"
| "fp_ge NaN t = False"

text \<open>\<^verbatim>\<open>static_cast<int64_t>(x)\<close> of a finite number: truncation towards zero.\<close>

definition trunc_int :: "rat \<Rightarrow> int" where
  "trunc_int x = (if 0 \<le> x then \<lfloor>x\<rfloor> else \<lceil>x\<rceil>)"

text \<open>The precision of \<^verbatim>\<open>double\<close>.\<close>

definition dbl :: nat where
  "dbl = 53"

text \<open>
  \<^verbatim>\<open>abs(1.0 - static_cast<double>(a) / static_cast<double>(b))\<close>, the relative deviation
  both rate limiters compute.
\<close>

definition deviation :: "int \<Rightarrow> int \<Rightarrow> fp" where
  "deviation a b = fp_abs (fp_one_minus dbl (fp_div dbl (fp_of_int dbl a) (fp_of_int dbl b)))"

text \<open>
  \<^verbatim>\<open>static_cast<int64_t>(static_cast<long double>(l) / t * a)\<close> for \<open>t \<noteq> 0\<close>, at the
  precision \<open>p\<close> of \<^verbatim>\<open>long double\<close> on the target (64 bits on x86, 113 on AArch64,
  53 where \<^verbatim>\<open>long double\<close> is \<^verbatim>\<open>double\<close>).
\<close>

definition scale_actual :: "nat \<Rightarrow> int \<Rightarrow> int \<Rightarrow> int \<Rightarrow> int" where
  "scale_actual p l t a =
     trunc_int (fl p (fl p (fp_of_int p l / fp_of_int p t) * fp_of_int p a))"

section \<open>The Power HAL as seen by the wrappers\<close>

text \<open>
  Every remote call, and every service lookup, is recorded in a log. The backend is a
  function from the log so far and the call to a reply: \<open>None\<close> when the call fails (a
  status that is not \<^verbatim>\<open>isOk()\<close>, or a lookup that returns \<^verbatim>\<open>nullptr\<close>), and
  \<open>Some b\<close> when it succeeds, where \<open>b\<close> is the boolean out-parameter of
  \<^verbatim>\<open>isModeSupported\<close> and \<^verbatim>\<open>isBoostSupported\<close>, and for
  \<^verbatim>\<open>createHintSession\<close> tells whether the session handed back is non-null.
\<close>

record WorkDuration =
  durationNanos :: int
  timeStampNanos :: int

datatype hal_call =
    WaitForVintfService
  | GetServiceV1_0
  | CastFromV1_3
  | IsModeSupported
  | IsBoostSupported
  | GetHintSessionPreferredRate
  | SetMode bool
  | SetBoost
  | PowerHintAsync_1_3 bool
  | CreateHintSession "int list" int
  | CloseSession
  | UpdateTargetWorkDuration int
  | ReportActualWorkDuration "WorkDuration list"

type_synonym backend = "hal_call list \<Rightarrow> hal_call \<Rightarrow> bool option"

definition isOk :: "bool option \<Rightarrow> bool" where
  "isOk r = (r \<noteq> None)"

text \<open>
  The constants the source takes from \<^verbatim>\<open>PowerAdvisor.h\<close>, which is not among the
  sources, and the system properties it reads once: they are parameters of the model.
  \<open>kAllowedTargetDeviationPercent\<close> and \<open>kAllowedActualDeviationPercent\<close> are the values
  of two \<^verbatim>\<open>double\<close> constants; the durations are in nanoseconds, \<open>updateTimeout\<close>
  (\<^verbatim>\<open>getUpdateTimeout()\<close>) in milliseconds; \<open>longDoublePrecision\<close> is the precision of
  \<^verbatim>\<open>long double\<close> on the target.
\<close>

record config =
  kAllowedTargetDeviationPercent :: rat
  kAllowedActualDeviationPercent :: rat
  kDefaultTarget :: int
  kStaleTimeout :: int
  kTargetSafetyMargin :: int
  sNormalizeTarget :: bool
  longDoublePrecision :: nat
  updateTimeout :: int

section \<open>AidlPowerHalWrapper\<close>

text \<open>
  \<open>mPowerHintSession\<close> is \<open>True\<close> when the session pointer is non-null. The field
  \<open>mSupportsPowerHint\<close> of the wrapper is named \<open>mSupportsPowerHintAidl\<close>, since
  \<^verbatim>\<open>PowerAdvisor\<close> has a field of the same name.
\<close>

record AidlPowerHalWrapper =
  mHasExpensiveRendering :: bool
  mHasDisplayUpdateImminent :: bool
  mSupportsPowerHintAidl :: bool
  mPowerHintSession :: bool
  mPowerHintQueue :: "WorkDuration list"
  mPowerHintThreadIds :: "int list"
  mTargetDuration :: int
  mLastTargetDurationSent :: int
  mActualDuration :: "int option"
  mLastActualDurationSent :: "int option"
  mLastActualReportTimestamp :: int
  mShouldReconnectHal :: bool

text \<open>A wrapper method runs on the wrapper and the log, and returns both.\<close>

type_synonym aidl = "AidlPowerHalWrapper \<times> hal_call list"

text \<open>
  Modelled from the spec: the member initialisers of \<^verbatim>\<open>AidlPowerHalWrapper\<close>, declared
  in \<^verbatim>\<open>PowerAdvisor.h\<close>, which is not among the sources. A new wrapper has no session,
  an empty queue and no thread ids, both targets at \<open>kDefaultTarget\<close>, no durations
  recorded and no reconnect pending. The three probes are the constructor's body.
\<close>

definition Aidl_ctor :: "config \<Rightarrow> backend \<Rightarrow> hal_call list \<Rightarrow> aidl" where
  "Aidl_ctor cfg B lg =
     (let r1 = B lg IsModeSupported;
          lg1 = lg @ [IsModeSupported];
          r2 = B lg1 IsBoostSupported;
          lg2 = lg1 @ [IsBoostSupported];
          r3 = B lg2 GetHintSessionPreferredRate;
          lg3 = lg2 @ [GetHintSessionPreferredRate]
      in (\<lparr> mHasExpensiveRendering = (r1 = Some True),
            mHasDisplayUpdateImminent = (r2 = Some True),
            mSupportsPowerHintAidl = isOk r3,
            mPowerHintSession = False,
            mPowerHintQueue = [],
            mPowerHintThreadIds = [],
            mTargetDuration = kDefaultTarget cfg,
            mLastTargetDurationSent = kDefaultTarget cfg,
            mActualDuration = None,
            mLastActualDurationSent = None,
            mLastActualReportTimestamp = 0,
            mShouldReconnectHal = False \<rparr>, lg3))"

text \<open>The destructor, and \<^verbatim>\<open>closePowerHintSession\<close>, which has the same body.\<close>

definition Aidl_closePowerHintSession :: "aidl \<Rightarrow> aidl" where
  "Aidl_closePowerHintSession = (\<lambda>(w, lg).
     if mPowerHintSession w then (w\<lparr>mPowerHintSession := False\<rparr>, lg @ [CloseSession])
     else (w, lg))"

definition Aidl_connect :: "config \<Rightarrow> backend \<Rightarrow> hal_call list \<Rightarrow> AidlPowerHalWrapper option \<times> hal_call list" where
  "Aidl_connect cfg B lg =
     (if B lg WaitForVintfService = None then (None, lg @ [WaitForVintfService])
      else (let (w, lg') = Aidl_ctor cfg B (lg @ [WaitForVintfService]) in (Some w, lg')))"

definition Aidl_setExpensiveRendering :: "backend \<Rightarrow> bool \<Rightarrow> aidl \<Rightarrow> bool \<times> aidl" where
  "Aidl_setExpensiveRendering B enabled = (\<lambda>(w, lg).
     if \<not> mHasExpensiveRendering w then (True, (w, lg))
     else (isOk (B lg (SetMode enabled)), (w, lg @ [SetMode enabled])))"

definition Aidl_notifyDisplayUpdateImminent :: "backend \<Rightarrow> aidl \<Rightarrow> bool \<times> aidl" where
  "Aidl_notifyDisplayUpdateImminent B = (\<lambda>(w, lg).
     if \<not> mHasDisplayUpdateImminent w then (True, (w, lg))
     else (isOk (B lg SetBoost), (w, lg @ [SetBoost])))"

definition Aidl_isPowerHintSessionRunning :: "AidlPowerHalWrapper \<Rightarrow> bool" where
  "Aidl_isPowerHintSessionRunning w = mPowerHintSession w"

definition Aidl_startPowerHintSession :: "backend \<Rightarrow> aidl \<Rightarrow> bool \<times> aidl" where
  "Aidl_startPowerHintSession B = (\<lambda>(w, lg).
     if mPowerHintSession w \<or> mPowerHintThreadIds w = [] then (False, (w, lg))
     else (let c = CreateHintSession (mPowerHintThreadIds w) (mTargetDuration w);
               ret = B lg c;
               w1 = w\<lparr>mPowerHintSession := (ret = Some True)\<rparr>;
               w2 = (if \<not> isOk ret then w1
                     else w1\<lparr>mLastTargetDurationSent := mTargetDuration w1\<rparr>)
           in (Aidl_isPowerHintSessionRunning w2, (w2, lg @ [c]))))"

definition Aidl_restartPowerHintSession :: "backend \<Rightarrow> aidl \<Rightarrow> aidl" where
  "Aidl_restartPowerHintSession B a = snd (Aidl_startPowerHintSession B (Aidl_closePowerHintSession a))"

definition Aidl_setPowerHintSessionThreadIds :: "backend \<Rightarrow> int list \<Rightarrow> aidl \<Rightarrow> aidl" where
  "Aidl_setPowerHintSessionThreadIds B threadIds = (\<lambda>(w, lg).
     if threadIds \<noteq> mPowerHintThreadIds w then
       (let w1 = w\<lparr>mPowerHintThreadIds := threadIds\<rparr>
        in if Aidl_isPowerHintSessionRunning w1 then Aidl_restartPowerHintSession B (w1, lg)
           else (w1, lg))
     else (w, lg))"

definition Aidl_shouldSetTargetDuration :: "config \<Rightarrow> AidlPowerHalWrapper \<Rightarrow> int \<Rightarrow> bool" where
  "Aidl_shouldSetTargetDuration cfg w targetDurationNanos =
     (if targetDurationNanos \<le> 0 then False
      else fp_ge (deviation (mLastTargetDurationSent w) targetDurationNanos)
             (kAllowedTargetDeviationPercent cfg))"

definition Aidl_setTargetWorkDuration :: "config \<Rightarrow> backend \<Rightarrow> int \<Rightarrow> aidl \<Rightarrow> aidl" where
  "Aidl_setTargetWorkDuration cfg B targetDurationNanos = (\<lambda>(w, lg).
     let w1 = w\<lparr>mTargetDuration := targetDurationNanos\<rparr>
     in if \<not> sNormalizeTarget cfg \<and> Aidl_isPowerHintSessionRunning w1 \<and>
           Aidl_shouldSetTargetDuration cfg w1 targetDurationNanos
        then (let w2 = w1\<lparr>mLastTargetDurationSent := targetDurationNanos\<rparr>;
                  ret = B lg (UpdateTargetWorkDuration targetDurationNanos);
                  lg' = lg @ [UpdateTargetWorkDuration targetDurationNanos]
              in if \<not> isOk ret then (w2\<lparr>mShouldReconnectHal := True\<rparr>, lg')
                 else (w2, lg'))
        else (w1, lg))"

text \<open>\<open>now\<close> is the value \<^verbatim>\<open>systemTime()\<close> returns.\<close>

definition Aidl_shouldReportActualDurationsNow :: "config \<Rightarrow> int \<Rightarrow> AidlPowerHalWrapper \<Rightarrow> bool" where
  "Aidl_shouldReportActualDurationsNow cfg now w =
     (if mLastActualDurationSent w = None \<or>
         now - mLastActualReportTimestamp w > kStaleTimeout cfg then True
      else if mActualDuration w = None then False
      else fp_ge (deviation (the (mActualDuration w)) (the (mLastActualDurationSent w)))
             (kAllowedActualDeviationPercent cfg))"

text \<open>
  \<^verbatim>\<open>sendActualWorkDuration\<close>, in three parts: the duration to report, the wrapper with
  the record queued, and the whole method. \<open>now1\<close> is the clock read by
  \<^verbatim>\<open>shouldReportActualDurationsNow\<close>, \<open>now2\<close> the one stored in
  \<open>mLastActualReportTimestamp\<close>.
\<close>

definition Aidl_reportedDuration :: "config \<Rightarrow> AidlPowerHalWrapper \<Rightarrow> int \<Rightarrow> int" where
  "Aidl_reportedDuration cfg w actualDurationNanos =
     (if sNormalizeTarget cfg
      then actualDurationNanos + (mLastTargetDurationSent w - mTargetDuration w)
      else if mLastTargetDurationSent w \<noteq> kDefaultTarget cfg \<and> mTargetDuration w \<noteq> 0
      then scale_actual (longDoublePrecision cfg) (mLastTargetDurationSent w)
             (mTargetDuration w) actualDurationNanos
      else actualDurationNanos)"

definition Aidl_queueActual :: "config \<Rightarrow> int \<Rightarrow> int \<Rightarrow> AidlPowerHalWrapper \<Rightarrow> AidlPowerHalWrapper" where
  "Aidl_queueActual cfg actualDurationNanos timeStamp w =
     (let reportedDuration = Aidl_reportedDuration cfg w actualDurationNanos
      in w\<lparr>mActualDuration := Some reportedDuration,
            mPowerHintQueue := mPowerHintQueue w @
              [\<lparr>durationNanos = reportedDuration, timeStampNanos = timeStamp\<rparr>]\<rparr>)"

definition Aidl_sendActualWorkDuration ::
  "config \<Rightarrow> backend \<Rightarrow> int \<Rightarrow> int \<Rightarrow> int \<Rightarrow> int \<Rightarrow> aidl \<Rightarrow> aidl" where
  "Aidl_sendActualWorkDuration cfg B now1 now2 actualDurationNanos timeStamp = (\<lambda>(w, lg).
     if actualDurationNanos < 0 \<or> \<not> Aidl_isPowerHintSessionRunning w then (w, lg)
     else
       (let reportedDuration = Aidl_reportedDuration cfg w actualDurationNanos;
            w1 = Aidl_queueActual cfg actualDurationNanos timeStamp w
        in if Aidl_shouldReportActualDurationsNow cfg now1 w1
           then (let w2 = w1\<lparr>mLastActualReportTimestamp := now2\<rparr>;
                     ret = B lg (ReportActualWorkDuration (mPowerHintQueue w2));
                     lg' = lg @ [ReportActualWorkDuration (mPowerHintQueue w2)];
                     w3 = (if \<not> isOk ret then w2\<lparr>mShouldReconnectHal := True\<rparr> else w2)
                 in (w3\<lparr>mPowerHintQueue := [], mLastActualDurationSent := Some reportedDuration\<rparr>,
                     lg'))
           else (w1, lg)))"

section \<open>HidlPowerHalWrapper and the virtual interface\<close>

text \<open>
  The HIDL wrapper holds nothing but the service handle. \<^verbatim>\<open>connect\<close> looks up
  Power HAL 1.0 and casts it to 1.3.
\<close>

definition Hidl_connect :: "backend \<Rightarrow> hal_call list \<Rightarrow> bool \<times> hal_call list" where
  "Hidl_connect B lg =
     (if B lg GetServiceV1_0 \<noteq> None
      then (B (lg @ [GetServiceV1_0]) CastFromV1_3 \<noteq> None, lg @ [GetServiceV1_0, CastFromV1_3])
      else (False, lg @ [GetServiceV1_0]))"

definition Hidl_setExpensiveRendering :: "backend \<Rightarrow> bool \<Rightarrow> hal_call list \<Rightarrow> bool \<times> hal_call list" where
  "Hidl_setExpensiveRendering B enabled lg =
     (isOk (B lg (PowerHintAsync_1_3 enabled)), lg @ [PowerHintAsync_1_3 enabled])"

datatype HalWrapper = Hidl | Aidl AidlPowerHalWrapper

type_synonym hal = "HalWrapper \<times> hal_call list"

fun HalWrapper_setExpensiveRendering :: "backend \<Rightarrow> bool \<Rightarrow> hal \<Rightarrow> bool \<times> hal" where
  "HalWrapper_setExpensiveRendering B enabled (Hidl, lg) =
     (let (ok, lg') = Hidl_setExpensiveRendering B enabled lg in (ok, (Hidl, lg')))"
| "HalWrapper_setExpensiveRendering B enabled (Aidl w, lg) =
     (let (ok, (w', lg')) = Aidl_setExpensiveRendering B enabled (w, lg) in (ok, (Aidl w', lg')))"

fun HalWrapper_notifyDisplayUpdateImminent :: "backend \<Rightarrow> hal \<Rightarrow> bool \<times> hal" where
  "HalWrapper_notifyDisplayUpdateImminent B (Hidl, lg) = (True, (Hidl, lg))"
| "HalWrapper_notifyDisplayUpdateImminent B (Aidl w, lg) =
     (let (ok, (w', lg')) = Aidl_notifyDisplayUpdateImminent B (w, lg) in (ok, (Aidl w', lg')))"

fun HalWrapper_supportsPowerHintSession :: "HalWrapper \<Rightarrow> bool" where
  "HalWrapper_supportsPowerHintSession Hidl = False"
| "HalWrapper_supportsPowerHintSession (Aidl w) = mSupportsPowerHintAidl w"

fun HalWrapper_setPowerHintSessionThreadIds :: "backend \<Rightarrow> int list \<Rightarrow> hal \<Rightarrow> hal" where
  "HalWrapper_setPowerHintSessionThreadIds B threadIds (Hidl, lg) = (Hidl, lg)"
| "HalWrapper_setPowerHintSessionThreadIds B threadIds (Aidl w, lg) =
     (let (w', lg') = Aidl_setPowerHintSessionThreadIds B threadIds (w, lg) in (Aidl w', lg'))"

fun HalWrapper_startPowerHintSession :: "backend \<Rightarrow> hal \<Rightarrow> bool \<times> hal" where
  "HalWrapper_startPowerHintSession B (Hidl, lg) = (False, (Hidl, lg))"
| "HalWrapper_startPowerHintSession B (Aidl w, lg) =
     (let (r, (w', lg')) = Aidl_startPowerHintSession B (w, lg) in (r, (Aidl w', lg')))"

fun HalWrapper_setTargetWorkDuration :: "config \<Rightarrow> backend \<Rightarrow> int \<Rightarrow> hal \<Rightarrow> hal" where
  "HalWrapper_setTargetWorkDuration cfg B d (Hidl, lg) = (Hidl, lg)"
| "HalWrapper_setTargetWorkDuration cfg B d (Aidl w, lg) =
     (let (w', lg') = Aidl_setTargetWorkDuration cfg B d (w, lg) in (Aidl w', lg'))"

fun HalWrapper_sendActualWorkDuration ::
  "config \<Rightarrow> backend \<Rightarrow> int \<Rightarrow> int \<Rightarrow> int \<Rightarrow> int \<Rightarrow> hal \<Rightarrow> hal" where
  "HalWrapper_sendActualWorkDuration cfg B now1 now2 d t (Hidl, lg) = (Hidl, lg)"
| "HalWrapper_sendActualWorkDuration cfg B now1 now2 d t (Aidl w, lg) =
     (let (w', lg') = Aidl_sendActualWorkDuration cfg B now1 now2 d t (w, lg) in (Aidl w', lg'))"

fun HalWrapper_shouldReconnectHAL :: "HalWrapper \<Rightarrow> bool" where
  "HalWrapper_shouldReconnectHAL Hidl = False"
| "HalWrapper_shouldReconnectHAL (Aidl w) = mShouldReconnectHal w"

fun HalWrapper_getPowerHintSessionThreadIds :: "HalWrapper \<Rightarrow> int list" where
  "HalWrapper_getPowerHintSessionThreadIds Hidl = []"
| "HalWrapper_getPowerHintSessionThreadIds (Aidl w) = mPowerHintThreadIds w"

fun HalWrapper_getTargetWorkDuration :: "HalWrapper \<Rightarrow> int option" where
  "HalWrapper_getTargetWorkDuration Hidl = None"
| "HalWrapper_getTargetWorkDuration (Aidl w) = Some (mTargetDuration w)"

text \<open>The destructor run when the owning pointer lets go of a wrapper.\<close>

fun HalWrapper_dtor :: "hal \<Rightarrow> hal_call list" where
  "HalWrapper_dtor (Hidl, lg) = lg"
| "HalWrapper_dtor (Aidl w, lg) = snd (Aidl_closePowerHintSession (w, lg))"

section \<open>PowerAdvisor\<close>

text \<open>
  The state of the advisor, with the two function-local statics of \<^verbatim>\<open>getPowerHal\<close>
  (\<open>sHalWrapper\<close>, \<open>sHasHal\<close>) and the log of the calls made so far.

  Modelled from the spec: the screen update timer is a \<^verbatim>\<open>OneShotTimer\<close>, whose
  implementation is not among the sources. The state keeps whether it was started and how
  many times \<^verbatim>\<open>reset()\<close> was requested; its two callbacks, which the constructor
  defines, are operations of their own, run by the timer's thread: the reset callback
  after a reset, the timeout callback once the timeout has passed without one.

  Locking is not modelled: every operation runs alone, and taking \<open>mPowerHalMutex\<close> has
  no effect, also where \<^verbatim>\<open>supportsPowerHintSession\<close> takes it below a caller that holds
  it already.
\<close>

record OneShotTimer =
  started :: bool
  resetRequests :: nat

record PowerAdvisor =
  mBootFinished :: bool
  mExpensiveDisplays :: "nat set"
  mNotifiedExpensiveRendering :: bool
  mPowerHintEnabled :: "bool option"
  mSupportsPowerHint :: "bool option"
  mPowerHintSessionRunning :: bool
  mReconnectPowerHal :: bool
  mSendUpdateImminent :: bool
  mLastScreenUpdatedTime :: int
  mScreenUpdateTimer :: "OneShotTimer option"
  sHalWrapper :: "HalWrapper option"
  sHasHal :: bool
  halLog :: "hal_call list"

text \<open>Dereferencing a null \<^verbatim>\<open>HalWrapper*\<close> ends the run.\<close>

datatype error = NullPointerDereference

text \<open>
  Modelled from the spec: the member initialisers of \<^verbatim>\<open>PowerAdvisor\<close>, declared in
  \<^verbatim>\<open>PowerAdvisor.h\<close>, which is not among the sources. Nothing is booted, expensive,
  notified, enabled, cached, running or requested, and the update-imminent flag is armed.
  The timer exists when the timeout is positive, as the constructor's body has it, and
  the statics of \<^verbatim>\<open>getPowerHal\<close> start as the source initialises them.
\<close>

definition PowerAdvisor_ctor :: "config \<Rightarrow> PowerAdvisor" where
  "PowerAdvisor_ctor cfg =
     \<lparr> mBootFinished = False,
       mExpensiveDisplays = {},
       mNotifiedExpensiveRendering = False,
       mPowerHintEnabled = None,
       mSupportsPowerHint = None,
       mPowerHintSessionRunning = False,
       mReconnectPowerHal = False,
       mSendUpdateImminent = True,
       mLastScreenUpdatedTime = 0,
       mScreenUpdateTimer =
         (if 0 < updateTimeout cfg then Some \<lparr>started = False, resetRequests = 0\<rparr> else None),
       sHalWrapper = None,
       sHasHal = True,
       halLog = [] \<rparr>"

text \<open>The reset callback and the timeout callback handed to the timer by the constructor.
  The timeout callback reads the clock until the timeout has elapsed since the last screen
  update (\<open>None\<close>: it is still waiting when the readings end), re-arms the flag and tells
  the compositor to disable expensive rendering, which is outside this file.\<close>

definition resetCallback :: "PowerAdvisor \<Rightarrow> PowerAdvisor" where
  "resetCallback c = c\<lparr>mSendUpdateImminent := False\<rparr>"

fun timeoutCallback :: "config \<Rightarrow> int list \<Rightarrow> PowerAdvisor \<Rightarrow> PowerAdvisor option" where
  "timeoutCallback cfg [] c = None"
| "timeoutCallback cfg (now # readings) c =
     (if updateTimeout cfg * 1000000 \<le> now - mLastScreenUpdatedTime c
      then Some (c\<lparr>mSendUpdateImminent := True\<rparr>)
      else timeoutCallback cfg readings c)"

definition init :: "PowerAdvisor \<Rightarrow> PowerAdvisor" where
  "init c = (case mScreenUpdateTimer c of None \<Rightarrow> c
             | Some t \<Rightarrow> c\<lparr>mScreenUpdateTimer := Some (t\<lparr>started := True\<rparr>)\<rparr>)"

definition onBootFinished :: "PowerAdvisor \<Rightarrow> PowerAdvisor" where
  "onBootFinished c = c\<lparr>mBootFinished := True\<rparr>"

definition enablePowerHint :: "bool \<Rightarrow> PowerAdvisor \<Rightarrow> PowerAdvisor" where
  "enablePowerHint enabled c = c\<lparr>mPowerHintEnabled := Some enabled\<rparr>"

definition isPowerHintSessionRunning :: "PowerAdvisor \<Rightarrow> bool" where
  "isPowerHintSessionRunning c = mPowerHintSessionRunning c"

text \<open>\<^verbatim>\<open>sHalWrapper = nullptr\<close>: the wrapper owned so far, if any, is destroyed.\<close>

definition resetHalWrapper :: "PowerAdvisor \<Rightarrow> PowerAdvisor" where
  "resetHalWrapper c = (case sHalWrapper c of None \<Rightarrow> c
     | Some h \<Rightarrow> c\<lparr>sHalWrapper := None, halLog := HalWrapper_dtor (h, halLog c)\<rparr>)"

text \<open>
  The first half of \<^verbatim>\<open>getPowerHal\<close>: the snapshot of the old hint session values, and
  the wrapper dropped when a reconnect was requested.
\<close>

definition oldPowerHintSessionThreadIds :: "PowerAdvisor \<Rightarrow> int list" where
  "oldPowerHintSessionThreadIds c =
     (case sHalWrapper c of None \<Rightarrow> [] | Some h \<Rightarrow> HalWrapper_getPowerHintSessionThreadIds h)"

definition oldTargetWorkDuration :: "PowerAdvisor \<Rightarrow> int option" where
  "oldTargetWorkDuration c =
     (case sHalWrapper c of None \<Rightarrow> None | Some h \<Rightarrow> HalWrapper_getTargetWorkDuration h)"

definition dropOnReconnect :: "PowerAdvisor \<Rightarrow> PowerAdvisor" where
  "dropOnReconnect c =
     (if mReconnectPowerHal c then (resetHalWrapper c)\<lparr>mReconnectPowerHal := False\<rparr> else c)"

text \<open>The wrapper that \<^verbatim>\<open>getPowerHal\<close> hands back as it is.\<close>

definition wrapperIsFine :: "PowerAdvisor \<Rightarrow> bool" where
  "wrapperIsFine c = (case sHalWrapper c of None \<Rightarrow> False
     | Some h \<Rightarrow> \<not> HalWrapper_shouldReconnectHAL h)"

text \<open>
  \<^verbatim>\<open>getPowerHal\<close> calls \<^verbatim>\<open>usePowerHintSession\<close> after a successful AIDL connection,
  which calls \<^verbatim>\<open>supportsPowerHintSession\<close>, which calls \<^verbatim>\<open>getPowerHal\<close> again when
  its cache is empty. The inner call finds the wrapper just made and returns it: a state
  is \<open>healthy\<close> when \<^verbatim>\<open>getPowerHal\<close> returns without connecting.

  The result of \<^verbatim>\<open>getPowerHal\<close> is the pointer it returns (\<open>None\<close> for
  \<^verbatim>\<open>nullptr\<close>) and the new state; a non-null result points to the wrapper that
  \<open>sHalWrapper\<close> owns.
\<close>

definition healthy :: "PowerAdvisor \<Rightarrow> bool" where
  "healthy c = (sHasHal c \<and> \<not> mReconnectPowerHal c \<and> wrapperIsFine c)"

function getPowerHal :: "config \<Rightarrow> backend \<Rightarrow> PowerAdvisor \<Rightarrow> error + (HalWrapper option \<times> PowerAdvisor)"
  and supportsPowerHintSession :: "config \<Rightarrow> backend \<Rightarrow> PowerAdvisor \<Rightarrow> error + (bool \<times> PowerAdvisor)"
  and usePowerHintSession :: "config \<Rightarrow> backend \<Rightarrow> PowerAdvisor \<Rightarrow> error + (bool \<times> PowerAdvisor)"
where
  "getPowerHal cfg B c =
     (if \<not> sHasHal c then Inr (None, c)
      else
        let oldIds = oldPowerHintSessionThreadIds c;
            oldTarget = oldTargetWorkDuration c;
            c1 = dropOnReconnect c
        in if wrapperIsFine c1 then Inr (sHalWrapper c1, c1)
           else
             let c2 = (resetHalWrapper c1)\<lparr>mPowerHintSessionRunning := False\<rparr>;
                 (aidl, lg) = Aidl_connect cfg B (halLog c2)
             in case aidl of
                  None \<Rightarrow>
                    (let (hidl, lg') = Hidl_connect B lg;
                         c3 = c2\<lparr>sHalWrapper := (if hidl then Some Hidl else None), halLog := lg'\<rparr>;
                         c4 = (if sHalWrapper c3 = None then c3\<lparr>sHasHal := False\<rparr> else c3)
                     in Inr (sHalWrapper c4, c4))
                | Some w \<Rightarrow>
                    (let (h1, lg1) = HalWrapper_setPowerHintSessionThreadIds B oldIds (Aidl w, lg)
                     in case oldTarget of
                          None \<Rightarrow> Inr (Some h1, c2\<lparr>sHalWrapper := Some h1, halLog := lg1\<rparr>)
                        | Some t \<Rightarrow>
                            (let (h2, lg2) = HalWrapper_setTargetWorkDuration cfg B t (h1, lg1);
                                 c3 = c2\<lparr>sHalWrapper := Some h2, halLog := lg2\<rparr>
                             in case usePowerHintSession cfg B c3 of
                                  Inl e \<Rightarrow> Inl e
                                | Inr (use, c4) \<Rightarrow>
                                    if use \<and> oldIds \<noteq> [] then
                                      (case sHalWrapper c4 of
                                         None \<Rightarrow> Inl NullPointerDereference
                                       | Some h \<Rightarrow>
                                           (let (r, (h', lg')) =
                                                  HalWrapper_startPowerHintSession B (h, halLog c4);
                                                c5 = c4\<lparr>sHalWrapper := Some h', halLog := lg',
                                                        mPowerHintSessionRunning := r\<rparr>
                                            in Inr (sHalWrapper c5, c5)))
                                    else Inr (sHalWrapper c4, c4))))"
| "supportsPowerHintSession cfg B c =
     (if mSupportsPowerHint c = None then
        (case getPowerHal cfg B c of
           Inl e \<Rightarrow> Inl e
         | Inr (halWrapper, c1) \<Rightarrow>
             (case halWrapper of
                None \<Rightarrow> Inl NullPointerDereference
              | Some h \<Rightarrow>
                  (let c2 = c1\<lparr>mSupportsPowerHint := Some (HalWrapper_supportsPowerHintSession h)\<rparr>
                   in Inr (the (mSupportsPowerHint c2), c2))))
      else Inr (the (mSupportsPowerHint c), c))"
| "usePowerHintSession cfg B c =
     (if (case mPowerHintEnabled c of None \<Rightarrow> False | Some b \<Rightarrow> b)
      then supportsPowerHintSession cfg B c
      else Inr (False, c))"
  by pat_completeness auto
termination
proof (relation "measure (\<lambda>x. case x of
       Inl (_, _, c) \<Rightarrow> if healthy c then 0 else 3
     | Inr (Inl (_, _, c)) \<Rightarrow> if healthy c then 1 else 4
     | Inr (Inr (_, _, c)) \<Rightarrow> if healthy c then 2 else 5)", goal_cases)
  case 1
  show ?case by simp
next
  case (2 cfg B c oldIds oldTarget c1 c2 r aidl lg w r1 h1 lg1 t r2 h2 lg2 c3)
  have "\<not> healthy c"
    using 2 by (auto simp: healthy_def dropOnReconnect_def)
  moreover have "healthy c3"
  proof -
    have "Aidl_connect cfg B (halLog c2) = (Some w, lg)"
      using 2(7,8,9) by simp
    then have w: "\<not> mShouldReconnectHal w" "\<not> mPowerHintSession w"
      by (auto simp: Aidl_connect_def Aidl_ctor_def Let_def split: if_splits)
    have ids: "Aidl_setPowerHintSessionThreadIds B oldIds (w, lg) =
        (w\<lparr>mPowerHintThreadIds := oldIds\<rparr>, lg)"
      using w by (simp add: Aidl_setPowerHintSessionThreadIds_def Aidl_isPowerHintSessionRunning_def)
    have tgt: "Aidl_setTargetWorkDuration cfg B t (w\<lparr>mPowerHintThreadIds := oldIds\<rparr>, lg) =
        (w\<lparr>mPowerHintThreadIds := oldIds, mTargetDuration := t\<rparr>, lg)"
      using w by (simp add: Aidl_setTargetWorkDuration_def Aidl_isPowerHintSessionRunning_def)
    have "(h1, lg1) = HalWrapper_setPowerHintSessionThreadIds B oldIds (Aidl w, lg)"
      using 2(10,11) by simp
    then have h1: "h1 = Aidl (w\<lparr>mPowerHintThreadIds := oldIds\<rparr>)" and lg1: "lg1 = lg"
      by (simp_all add: ids)
    have "(h2, lg2) = HalWrapper_setTargetWorkDuration cfg B t (h1, lg1)"
      using 2(13,14) by simp
    then have h2: "h2 = Aidl (w\<lparr>mPowerHintThreadIds := oldIds, mTargetDuration := t\<rparr>)"
      by (simp add: h1 lg1 tgt)
    have "sHasHal c"
      using 2(1) by simp
    then show ?thesis
      using w 2(4,6,15)
      by (simp add: healthy_def wrapperIsFine_def h2 resetHalWrapper_def dropOnReconnect_def
          split: option.splits)
  qed
  ultimately show ?case by simp
next
  case 3
  show ?case by simp
next
  case 4
  show ?case by simp
qed

declare getPowerHal.simps [simp del] supportsPowerHintSession.simps [simp del]
  usePowerHintSession.simps [simp del]

text \<open>
  The public operations. A pointer returned by \<^verbatim>\<open>getPowerHal\<close> is used on the wrapper
  that \<open>sHalWrapper\<close> owns, and the wrapper as the method leaves it is stored back.
\<close>

definition setExpensiveRenderingExpected ::
  "config \<Rightarrow> backend \<Rightarrow> nat \<Rightarrow> bool \<Rightarrow> PowerAdvisor \<Rightarrow> error + PowerAdvisor" where
  "setExpensiveRenderingExpected cfg B displayId expected c =
     (let c1 = c\<lparr>mExpensiveDisplays :=
                  (if expected then insert displayId (mExpensiveDisplays c)
                   else mExpensiveDisplays c - {displayId})\<rparr>;
          expectsExpensiveRendering = (mExpensiveDisplays c1 \<noteq> {})
      in if mNotifiedExpensiveRendering c1 \<noteq> expectsExpensiveRendering then
           (case getPowerHal cfg B c1 of
              Inl e \<Rightarrow> Inl e
            | Inr (None, c2) \<Rightarrow> Inr c2
            | Inr (Some h, c2) \<Rightarrow>
                (let (ok, (h', lg)) =
                       HalWrapper_setExpensiveRendering B expectsExpensiveRendering (h, halLog c2);
                     c3 = c2\<lparr>sHalWrapper := Some h', halLog := lg\<rparr>
                 in if \<not> ok then Inr (c3\<lparr>mReconnectPowerHal := True\<rparr>)
                    else Inr (c3\<lparr>mNotifiedExpensiveRendering := expectsExpensiveRendering\<rparr>)))
         else Inr c1)"

definition storeLastScreenUpdatedTime :: "int \<Rightarrow> PowerAdvisor \<Rightarrow> PowerAdvisor" where
  "storeLastScreenUpdatedTime now c =
     (if mScreenUpdateTimer c \<noteq> None then c\<lparr>mLastScreenUpdatedTime := now\<rparr> else c)"

definition notifyDisplayUpdateImminent ::
  "config \<Rightarrow> backend \<Rightarrow> int \<Rightarrow> PowerAdvisor \<Rightarrow> error + PowerAdvisor" where
  "notifyDisplayUpdateImminent cfg B now c =
     (if \<not> mBootFinished c then Inr c
      else if mSendUpdateImminent c then
        (case getPowerHal cfg B (c\<lparr>mSendUpdateImminent := False\<rparr>) of
           Inl e \<Rightarrow> Inl e
         | Inr (None, c2) \<Rightarrow> Inr c2
         | Inr (Some h, c2) \<Rightarrow>
             (let (ok, (h', lg)) = HalWrapper_notifyDisplayUpdateImminent B (h, halLog c2);
                  c3 = c2\<lparr>sHalWrapper := Some h', halLog := lg\<rparr>
              in if \<not> ok then Inr (c3\<lparr>mReconnectPowerHal := True\<rparr>)
                 else Inr (storeLastScreenUpdatedTime now
                        (case mScreenUpdateTimer c3 of
                           Some t \<Rightarrow> c3\<lparr>mScreenUpdateTimer :=
                                          Some (t\<lparr>resetRequests := Suc (resetRequests t)\<rparr>)\<rparr>
                         | None \<Rightarrow> c3\<lparr>mSendUpdateImminent := True\<rparr>))))
      else Inr (storeLastScreenUpdatedTime now c))"

definition setTargetWorkDuration ::
  "config \<Rightarrow> backend \<Rightarrow> int \<Rightarrow> PowerAdvisor \<Rightarrow> error + PowerAdvisor" where
  "setTargetWorkDuration cfg B targetDurationNanos c =
     (case usePowerHintSession cfg B c of
        Inl e \<Rightarrow> Inl e
      | Inr (use, c1) \<Rightarrow>
          if \<not> use then Inr c1
          else
            (case getPowerHal cfg B c1 of
               Inl e \<Rightarrow> Inl e
             | Inr (None, c2) \<Rightarrow> Inr c2
             | Inr (Some h, c2) \<Rightarrow>
                 (let (h', lg) = HalWrapper_setTargetWorkDuration cfg B
                                   (targetDurationNanos - kTargetSafetyMargin cfg) (h, halLog c2)
                  in Inr (c2\<lparr>sHalWrapper := Some h', halLog := lg\<rparr>))))"

definition sendActualWorkDuration ::
  "config \<Rightarrow> backend \<Rightarrow> int \<Rightarrow> int \<Rightarrow> int \<Rightarrow> int \<Rightarrow> PowerAdvisor \<Rightarrow> error + PowerAdvisor" where
  "sendActualWorkDuration cfg B now1 now2 actualDurationNanos timeStamp c =
     (if \<not> mBootFinished c then Inr c
      else
        (case usePowerHintSession cfg B c of
           Inl e \<Rightarrow> Inl e
         | Inr (use, c1) \<Rightarrow>
             if \<not> use then Inr c1
             else
               (case getPowerHal cfg B c1 of
                  Inl e \<Rightarrow> Inl e
                | Inr (None, c2) \<Rightarrow> Inr c2
                | Inr (Some h, c2) \<Rightarrow>
                    (let (h', lg) = HalWrapper_sendActualWorkDuration cfg B now1 now2
                                      actualDurationNanos timeStamp (h, halLog c2)
                     in Inr (c2\<lparr>sHalWrapper := Some h', halLog := lg\<rparr>)))))"

text \<open>
  \<^verbatim>\<open>startPowerHintSession\<close> evaluates \<^verbatim>\<open>usePowerHintSession()\<close> for its log message,
  and again behind \<^verbatim>\<open>halWrapper != nullptr &&\<close>.
\<close>

definition startPowerHintSession ::
  "config \<Rightarrow> backend \<Rightarrow> int list \<Rightarrow> PowerAdvisor \<Rightarrow> error + (bool \<times> PowerAdvisor)" where
  "startPowerHintSession cfg B threadIds c =
     (case usePowerHintSession cfg B c of
        Inl e \<Rightarrow> Inl e
      | Inr (_, c1) \<Rightarrow>
          (case getPowerHal cfg B c1 of
             Inl e \<Rightarrow> Inl e
           | Inr (None, c2) \<Rightarrow> Inr (mPowerHintSessionRunning c2, c2)
           | Inr (Some _, c2) \<Rightarrow>
               (case usePowerHintSession cfg B c2 of
                  Inl e \<Rightarrow> Inl e
                | Inr (use, c3) \<Rightarrow>
                    if \<not> use then Inr (mPowerHintSessionRunning c3, c3)
                    else
                      (case sHalWrapper c3 of
                         None \<Rightarrow> Inl NullPointerDereference
                       | Some h \<Rightarrow>
                           (let (h1, lg1) =
                                  HalWrapper_setPowerHintSessionThreadIds B threadIds (h, halLog c3);
                                (r, (h2, lg2)) = HalWrapper_startPowerHintSession B (h1, lg1);
                                c4 = c3\<lparr>sHalWrapper := Some h2, halLog := lg2,
                                        mPowerHintSessionRunning := r\<rparr>
                            in Inr (mPowerHintSessionRunning c4, c4))))))"

section \<open>Runs of the advisor\<close>

text \<open>
  The calls the compositor and the timer thread make, with the clock readings each one
  consumes, and the state they lead to from the constructor. A timeout callback that is
  still waiting when its readings end has not changed the state.
\<close>

datatype call =
    Init
  | OnBootFinished
  | EnablePowerHint bool
  | SetExpensiveRenderingExpected nat bool
  | NotifyDisplayUpdateImminent int
  | UsePowerHintSession
  | SupportsPowerHintSession
  | StartPowerHintSession "int list"
  | SetTargetWorkDuration int
  | SendActualWorkDuration int int int int
  | ResetCallback
  | TimeoutCallback "int list"

fun perform :: "config \<Rightarrow> backend \<Rightarrow> call \<Rightarrow> PowerAdvisor \<Rightarrow> error + PowerAdvisor" where
  "perform cfg B Init c = Inr (init c)"
| "perform cfg B OnBootFinished c = Inr (onBootFinished c)"
| "perform cfg B (EnablePowerHint enabled) c = Inr (enablePowerHint enabled c)"
| "perform cfg B (SetExpensiveRenderingExpected displayId expected) c =
     setExpensiveRenderingExpected cfg B displayId expected c"
| "perform cfg B (NotifyDisplayUpdateImminent now) c = notifyDisplayUpdateImminent cfg B now c"
| "perform cfg B UsePowerHintSession c =
     (case usePowerHintSession cfg B c of Inl e \<Rightarrow> Inl e | Inr (_, c') \<Rightarrow> Inr c')"
| "perform cfg B SupportsPowerHintSession c =
     (case supportsPowerHintSession cfg B c of Inl e \<Rightarrow> Inl e | Inr (_, c') \<Rightarrow> Inr c')"
| "perform cfg B (StartPowerHintSession threadIds) c =
     (case startPowerHintSession cfg B threadIds c of Inl e \<Rightarrow> Inl e | Inr (_, c') \<Rightarrow> Inr c')"
| "perform cfg B (SetTargetWorkDuration d) c = setTargetWorkDuration cfg B d c"
| "perform cfg B (SendActualWorkDuration now1 now2 d t) c =
     sendActualWorkDuration cfg B now1 now2 d t c"
| "perform cfg B ResetCallback c = Inr (resetCallback c)"
| "perform cfg B (TimeoutCallback readings) c =
     Inr (case timeoutCallback cfg readings c of None \<Rightarrow> c | Some c' \<Rightarrow> c')"

fun run :: "config \<Rightarrow> backend \<Rightarrow> call list \<Rightarrow> PowerAdvisor \<Rightarrow> error + PowerAdvisor" where
  "run cfg B [] c = Inr c"
| "run cfg B (x # xs) c =
     (case perform cfg B x c of Inl e \<Rightarrow> Inl e | Inr c' \<Rightarrow> run cfg B xs c')"


section \<open>Vocabulary of the properties\<close>

text \<open>The calls that toggle expensive rendering, and the wrappers that forward the toggle.\<close>

fun isToggle :: "hal_call \<Rightarrow> bool" where
  "isToggle (SetMode enabled) = True"
| "isToggle (PowerHintAsync_1_3 enabled) = True"
| "isToggle _ = False"


fun toggleCall :: "HalWrapper \<Rightarrow> bool \<Rightarrow> hal_call" where
  "toggleCall Hidl enabled = PowerHintAsync_1_3 enabled"
| "toggleCall (Aidl w) enabled = SetMode enabled"


text \<open>The calls made while connecting: lookups, capability probes, session open and close.\<close>

fun isConnectCall :: "hal_call \<Rightarrow> bool" where
  "isConnectCall WaitForVintfService = True"
| "isConnectCall GetServiceV1_0 = True"
| "isConnectCall CastFromV1_3 = True"
| "isConnectCall IsModeSupported = True"
| "isConnectCall IsBoostSupported = True"
| "isConnectCall GetHintSessionPreferredRate = True"
| "isConnectCall (CreateHintSession ids t) = True"
| "isConnectCall CloseSession = True"
| "isConnectCall _ = False"

definition extends :: "hal_call list \<Rightarrow> hal_call list \<Rightarrow> bool" where
  "extends lg lg' = (\<exists>xs. lg' = lg @ xs \<and> list_all isConnectCall xs)"


text \<open>
  \<^verbatim>\<open>getPowerHal\<close> without the recursion, one definition for each way through it: the state
  once the old wrapper is gone, the cache of \<^verbatim>\<open>supportsPowerHintSession\<close> filled from the
  wrapper at hand, \<^verbatim>\<open>usePowerHintSession\<close> on it, the AIDL branch and the HIDL branch.
\<close>

definition disconnected :: "PowerAdvisor \<Rightarrow> PowerAdvisor" where
  "disconnected c = (resetHalWrapper (dropOnReconnect c))\<lparr>mPowerHintSessionRunning := False\<rparr>"

definition cacheSupport :: "PowerAdvisor \<Rightarrow> PowerAdvisor" where
  "cacheSupport c =
     (if mSupportsPowerHint c = None
      then c\<lparr>mSupportsPowerHint := map_option HalWrapper_supportsPowerHintSession (sHalWrapper c)\<rparr>
      else c)"

definition useCached :: "PowerAdvisor \<Rightarrow> bool \<times> PowerAdvisor" where
  "useCached c =
     (if mPowerHintEnabled c = Some True
      then (the (mSupportsPowerHint (cacheSupport c)), cacheSupport c)
      else (False, c))"




text \<open>The thread ids held by the wrapper behind a pointer, and the part of the state
  that \<^verbatim>\<open>getPowerHal\<close> never writes.\<close>

definition threadIdsOf :: "HalWrapper option \<Rightarrow> int list" where
  "threadIdsOf p = (case p of None \<Rightarrow> [] | Some h \<Rightarrow> HalWrapper_getPowerHintSessionThreadIds h)"

definition sameFrontEnd :: "PowerAdvisor \<Rightarrow> PowerAdvisor \<Rightarrow> bool" where
  "sameFrontEnd c c' =
     (mBootFinished c' = mBootFinished c \<and> mExpensiveDisplays c' = mExpensiveDisplays c \<and>
      mNotifiedExpensiveRendering c' = mNotifiedExpensiveRendering c \<and>
      mPowerHintEnabled c' = mPowerHintEnabled c \<and>
      mSendUpdateImminent c' = mSendUpdateImminent c \<and>
      mLastScreenUpdatedTime c' = mLastScreenUpdatedTime c \<and>
      mScreenUpdateTimer c' = mScreenUpdateTimer c)"

text \<open>
  What every state of a run satisfies: once the advisor has given up on the HAL it holds
  no wrapper and requests no reconnect, and thread ids are only ever held by a wrapper
  after \<^verbatim>\<open>supportsPowerHintSession\<close> has cached a positive answer.
\<close>

definition consistent :: "PowerAdvisor \<Rightarrow> bool" where
  "consistent c =
     ((\<not> sHasHal c \<longrightarrow> sHalWrapper c = None \<and> \<not> mReconnectPowerHal c) \<and>
      (oldPowerHintSessionThreadIds c \<noteq> [] \<longrightarrow> mSupportsPowerHint c = Some True))"

section \<open>Example configurations, backends and states\<close>

text \<open>
  A backend where no service is found, one where every call succeeds, one that serves only
  the HIDL lookups, and one where every call succeeds except the reports of durations and
  the target updates.
\<close>

definition example_config :: config where
  "example_config =
     \<lparr> kAllowedTargetDeviationPercent = fl 53 (1 / 10),
       kAllowedActualDeviationPercent = fl 53 (1 / 10),
       kDefaultTarget = 50000000,
       kStaleTimeout = 100000000,
       kTargetSafetyMargin = 2000000,
       sNormalizeTarget = False,
       longDoublePrecision = 64,
       updateTimeout = 80 \<rparr>"

definition failing_backend :: backend where
  "failing_backend lg c = None"

definition working_backend :: backend where
  "working_backend lg c = Some True"


definition running_wrapper :: AidlPowerHalWrapper where
  "running_wrapper =
     \<lparr> mHasExpensiveRendering = True,
       mHasDisplayUpdateImminent = True,
       mSupportsPowerHintAidl = True,
       mPowerHintSession = True,
       mPowerHintQueue = [],
       mPowerHintThreadIds = [1],
       mTargetDuration = 1000000,
       mLastTargetDurationSent = 1000000,
       mActualDuration = None,
       mLastActualDurationSent = None,
       mLastActualReportTimestamp = 0,
       mShouldReconnectHal = False \<rparr>"









section \<open>Accuracy of the rounding\<close>

text \<open>
  The rounding \<open>fl p\<close> that stands for one floating-point operation
  returns a number within relative error \<open>1 / 2 ^ p\<close> of its argument: it is a
  rounding to nearest on \<open>p\<close> significant bits, as the arithmetic of the
  compiled code is. The lemmas below lead to that bound, \<open>fl_error\<close>.
\<close>

lemma pow2_pos: "0 < pow2 e"
  by (simp add: pow2_def)

lemma pow2_neq0: "pow2 e \<noteq> 0"
  using pow2_pos [of e] by linarith

lemma pow2_ge0: "0 \<le> pow2 e"
  using pow2_pos [of e] by linarith

lemma abs_pow2: "\<bar>pow2 e\<bar> = pow2 e"
  using pow2_ge0 [of e] by simp

lemma pow2_nonneg: "0 \<le> e \<Longrightarrow> pow2 e = 2 ^ nat e"
  by (simp add: pow2_def)

lemma pow2_eq_power_int: "pow2 e = 2 powi e"
  by (simp add: pow2_def power_int_def field_simps)

lemma pow2_add: "pow2 (a + b) = pow2 a * pow2 b"
  by (simp add: pow2_eq_power_int power_int_add)

lemma pow2_mono: "a \<le> b \<Longrightarrow> pow2 a \<le> pow2 b"
  by (simp add: pow2_eq_power_int power_int_increasing)

lemma round_even_error: "\<bar>of_int (round_even x) - x\<bar> \<le> 1 / 2"
proof -
  define r where "r = x - of_int \<lfloor>x\<rfloor>"
  have r: "0 \<le> r" "r < 1"
    unfolding r_def by linarith+
  have x: "x = of_int \<lfloor>x\<rfloor> + r"
    by (simp add: r_def)
  have "round_even x = (if r < 1 / 2 then \<lfloor>x\<rfloor> else if 1 / 2 < r then \<lfloor>x\<rfloor> + 1
      else if even \<lfloor>x\<rfloor> then \<lfloor>x\<rfloor> else \<lfloor>x\<rfloor> + 1)"
    by (simp add: round_even_def Let_def r_def)
  then have "of_int (round_even x) - x = - r \<or> of_int (round_even x) - x = 1 - r"
    "r < 1 / 2 \<longrightarrow> of_int (round_even x) - x = - r"
    "1 / 2 < r \<longrightarrow> of_int (round_even x) - x = 1 - r"
    using x by (auto simp: algebra_simps)
  then show ?thesis
    using r by (cases "r < 1 / 2"; cases "1 / 2 < r") auto
qed

lemma round_even_of_int [simp]: "round_even (of_int m) = m"
  by (simp add: round_even_def)

lemma bitlen_pos: "0 < n \<Longrightarrow> 1 \<le> bitlen n"
  using bitlen_eq_zero_iff [of n] bitlen_nonneg [of n] by linarith

lemma pow2_bitlen:
  assumes "0 < n"
  shows "pow2 (bitlen n - 1) \<le> of_int n" and "of_int n < pow2 (bitlen n)"
proof -
  have b: "1 \<le> bitlen n"
    using assms by (rule bitlen_pos)
  have "(2::int) ^ nat (bitlen n - 1) \<le> n" "n < 2 ^ nat (bitlen n)"
    using bitlen_bounds [OF assms] by simp_all
  then have "(of_int ((2::int) ^ nat (bitlen n - 1)) :: rat) \<le> of_int n"
    "(of_int n :: rat) < of_int (2 ^ nat (bitlen n))"
    by (simp_all only: of_int_le_iff of_int_less_iff)
  then show "pow2 (bitlen n - 1) \<le> of_int n" and "of_int n < pow2 (bitlen n)"
    using b by (simp_all add: pow2_def)
qed

lemma bracket:
  assumes "0 < a"
  shows "pow2 (bitlen (fst (quotient_of a)) - bitlen (snd (quotient_of a)) - 1) < a"
    and "a < pow2 (bitlen (fst (quotient_of a)) - bitlen (snd (quotient_of a)) + 1)"
proof -
  obtain n d where q: "quotient_of a = (n, d)"
    by force
  then have d: "0 < d" and a: "a = of_int n / of_int d"
    using quotient_of_denom_pos quotient_of_div by blast+
  have n: "0 < n"
    using assms(1) a d by (simp add: zero_less_divide_iff)
  note N = pow2_bitlen [OF n] and D = pow2_bitlen [OF d]
  have 1: "pow2 (bitlen n - bitlen d - 1) = pow2 (bitlen n - 1) / pow2 (bitlen d)"
    by (simp add: pow2_eq_power_int power_int_diff)
  have 2: "pow2 (bitlen n - bitlen d + 1) = pow2 (bitlen n) / pow2 (bitlen d - 1)"
    by (simp add: pow2_eq_power_int power_int_diff power_int_add)
  have "pow2 (bitlen n - 1) / pow2 (bitlen d) < of_int n / of_int d"
    using N(1) D(2) d by (intro frac_less2) (simp_all add: pow2_pos)
  moreover have "of_int n / of_int d < pow2 (bitlen n) / pow2 (bitlen d - 1)"
    using N(2) D(1) n by (intro frac_less) (simp_all add: pow2_pos)
  ultimately show "pow2 (bitlen (fst (quotient_of a)) - bitlen (snd (quotient_of a)) - 1) < a"
    and "a < pow2 (bitlen (fst (quotient_of a)) - bitlen (snd (quotient_of a)) + 1)"
    using q a 1 2 by simp_all
qed

lemma fl_error: "\<bar>fl p x - x\<bar> \<le> \<bar>x\<bar> / 2 ^ p"
proof (cases "x = 0")
  case True
  then show ?thesis by (simp add: fl_def)
next
  case False
  define k where "k = bitlen (fst (quotient_of \<bar>x\<bar>)) - bitlen (snd (quotient_of \<bar>x\<bar>))"
  define e where "e = (if pow2 k \<le> \<bar>x\<bar> then k else k - 1)"
  define s where "s = int p - 1 - e"
  define m where "m = \<bar>x\<bar> * pow2 s"
  define sg where "sg = sgn x"
  have "0 < \<bar>x\<bar>"
    using False by simp
  from bracket(1) [OF this] have e: "pow2 e \<le> \<bar>x\<bar>"
    by (auto simp: e_def k_def)
  have f: "fl p x = sg * (of_int (round_even m) / pow2 s)"
    using False by (simp add: fl_def Let_def s_def m_def e_def k_def sg_def)
  have x: "x = sg * (m / pow2 s)"
    by (simp add: m_def sgn_mult_abs sg_def pow2_neq0)
  have "fl p x - x = sg * (of_int (round_even m) / pow2 s) - sg * (m / pow2 s)"
    using f x by linarith
  also have "\<dots> = sg * ((of_int (round_even m) - m) / pow2 s)"
    by (simp add: algebra_simps diff_divide_distrib)
  finally have "\<bar>fl p x - x\<bar> = \<bar>of_int (round_even m) - m\<bar> / pow2 s"
    using False by (simp add: abs_mult abs_sgn_eq sg_def abs_pow2)
  also have "\<dots> \<le> (1 / 2) / pow2 s"
    by (rule divide_right_mono [OF round_even_error pow2_ge0])
  also have "\<dots> = pow2 e / 2 ^ p"
  proof -
    have "pow2 s * pow2 e = pow2 (int p - 1)"
      by (simp add: s_def pow2_add [symmetric])
    also have "\<dots> = 2 ^ p / 2"
      by (cases p) (simp_all add: pow2_def nat_add_distrib)
    finally show ?thesis
      using pow2_neq0 [of s] by (simp add: field_simps)
  qed
  also have "\<dots> \<le> \<bar>x\<bar> / 2 ^ p"
    using e by (simp add: divide_right_mono)
  finally show ?thesis .
qed

section \<open>The rate limiters of the AIDL wrapper\<close>

subsection \<open>Deviations and scaled durations of the examples\<close>

lemma deviation_5_percent:
  "fp_ge (deviation 1000000 1050000) (fl 53 (1 / 10)) = False"
  by code_simp

lemma deviation_15_percent:
  "fp_ge (deviation 1000000 1150000) (fl 53 (1 / 10)) = True"
  by code_simp

lemma deviation_negative:
  "fp_ge (deviation 1000000 (- 1000000)) (fl 53 (1 / 10)) = True"
  by code_simp





subsection \<open>The methods as one case distinction each\<close>

lemma Aidl_setTargetWorkDuration_eq:
  "Aidl_setTargetWorkDuration cfg B d (w, lg) =
     (if \<not> sNormalizeTarget cfg \<and> mPowerHintSession w \<and> 0 < d \<and>
         fp_ge (deviation (mLastTargetDurationSent w) d) (kAllowedTargetDeviationPercent cfg)
      then (w\<lparr>mTargetDuration := d, mLastTargetDurationSent := d,
              mShouldReconnectHal := (mShouldReconnectHal w \<or> B lg (UpdateTargetWorkDuration d) = None)\<rparr>,
            lg @ [UpdateTargetWorkDuration d])
      else (w\<lparr>mTargetDuration := d\<rparr>, lg))"
  by (auto simp: Aidl_setTargetWorkDuration_def Aidl_isPowerHintSessionRunning_def
      Aidl_shouldSetTargetDuration_def isOk_def Let_def)

lemma Aidl_sendActualWorkDuration_eq:
  "Aidl_sendActualWorkDuration cfg B now1 now2 a ts (w, lg) =
     (if a < 0 \<or> \<not> mPowerHintSession w then (w, lg)
      else if Aidl_shouldReportActualDurationsNow cfg now1 (Aidl_queueActual cfg a ts w)
      then (w\<lparr>mActualDuration := Some (Aidl_reportedDuration cfg w a),
              mPowerHintQueue := [],
              mLastActualReportTimestamp := now2,
              mLastActualDurationSent := Some (Aidl_reportedDuration cfg w a),
              mShouldReconnectHal := (mShouldReconnectHal w \<or>
                B lg (ReportActualWorkDuration (mPowerHintQueue (Aidl_queueActual cfg a ts w))) = None)\<rparr>,
            lg @ [ReportActualWorkDuration (mPowerHintQueue (Aidl_queueActual cfg a ts w))])
      else (Aidl_queueActual cfg a ts w, lg))"
  by (auto simp: Aidl_sendActualWorkDuration_def Aidl_isPowerHintSessionRunning_def
      Aidl_queueActual_def isOk_def Let_def)

lemma mPowerHintQueue_queueActual:
  "mPowerHintQueue (Aidl_queueActual cfg a ts w) =
     mPowerHintQueue w @ [\<lparr>durationNanos = Aidl_reportedDuration cfg w a, timeStampNanos = ts\<rparr>]"
  by (simp add: Aidl_queueActual_def Let_def)

lemma never_reported_flushes:
  "mLastActualDurationSent w = None \<Longrightarrow>
     Aidl_shouldReportActualDurationsNow cfg now (Aidl_queueActual cfg a ts w)"
  by (simp add: Aidl_shouldReportActualDurationsNow_def Aidl_queueActual_def Let_def)

subsection \<open>Target updates\<close>

text \<open>
  Claim C2, as amended. In the default (non-normalize) mode \<^verbatim>\<open>setTargetWorkDuration(d)\<close>
  of the AIDL wrapper stores \<open>d\<close> as the target whatever happens next, and it issues
  \<^verbatim>\<open>updateTargetWorkDuration(d)\<close> exactly when the hint session is running, \<open>d\<close> is
  positive, and \<^verbatim>\<open>abs(1.0 - lastSent / d)\<close>, computed in \<^verbatim>\<open>double\<close>, is at least
  \<open>kAllowedTargetDeviationPercent\<close>. With the last target sent at 1,000,000 ns and the
  threshold the \<^verbatim>\<open>double\<close> 0.1, a target of 1,050,000 ns is not pushed, and one of
  1,150,000 ns is pushed and becomes the last target sent.
\<close>

theorem setTargetWorkDuration_push_condition:
  assumes "\<not> sNormalizeTarget cfg"
  shows "mTargetDuration (fst (Aidl_setTargetWorkDuration cfg B d (w, lg))) = d \<and>
    snd (Aidl_setTargetWorkDuration cfg B d (w, lg)) =
      (if Aidl_isPowerHintSessionRunning w \<and> 0 < d \<and>
          fp_ge (deviation (mLastTargetDurationSent w) d) (kAllowedTargetDeviationPercent cfg)
       then lg @ [UpdateTargetWorkDuration d] else lg) \<and>
    (Aidl_isPowerHintSessionRunning w \<and> mLastTargetDurationSent w = 1000000 \<and>
     kAllowedTargetDeviationPercent cfg = fl 53 (1 / 10) \<longrightarrow>
       snd (Aidl_setTargetWorkDuration cfg B 1050000 (w, lg)) = lg \<and>
       snd (Aidl_setTargetWorkDuration cfg B 1150000 (w, lg)) = lg @ [UpdateTargetWorkDuration 1150000] \<and>
       mLastTargetDurationSent (fst (Aidl_setTargetWorkDuration cfg B 1150000 (w, lg))) = 1150000)"
  using assms
  by (simp add: Aidl_setTargetWorkDuration_eq Aidl_isPowerHintSessionRunning_def
      deviation_5_percent deviation_15_percent)

theorem setTargetWorkDuration_push_condition_witness:
  "\<not> sNormalizeTarget example_config \<and>
   Aidl_isPowerHintSessionRunning running_wrapper \<and>
   mLastTargetDurationSent running_wrapper = 1000000 \<and>
   kAllowedTargetDeviationPercent example_config = fl 53 (1 / 10) \<and>
   snd (Aidl_setTargetWorkDuration example_config working_backend 1050000 (running_wrapper, [])) = [] \<and>
   snd (Aidl_setTargetWorkDuration example_config working_backend 1150000 (running_wrapper, [])) =
     [UpdateTargetWorkDuration 1150000] \<and>
   mLastTargetDurationSent
     (fst (Aidl_setTargetWorkDuration example_config working_backend 1150000 (running_wrapper, []))) =
     1150000"
proof -
  have h: "\<not> sNormalizeTarget example_config"
    by (simp add: example_config_def)
  have r: "Aidl_isPowerHintSessionRunning running_wrapper \<and>
      mLastTargetDurationSent running_wrapper = 1000000 \<and>
      kAllowedTargetDeviationPercent example_config = fl 53 (1 / 10)"
    by (simp add: Aidl_isPowerHintSessionRunning_def running_wrapper_def example_config_def)
  show ?thesis
    using h r setTargetWorkDuration_push_condition [OF h, of working_backend 0 running_wrapper "[]"] by simp
qed

text \<open>
  Claim C2 as stated leaves out the sign test: with a running session, a last target of
  1,000,000 ns and the target -1,000,000 ns, the deviation is 2, far above the threshold,
  and nothing is pushed.
\<close>

theorem setTargetWorkDuration_nonpositive_not_pushed:
  "\<not> sNormalizeTarget example_config \<and> Aidl_isPowerHintSessionRunning running_wrapper \<and>
   fp_ge (deviation (mLastTargetDurationSent running_wrapper) (- 1000000))
     (kAllowedTargetDeviationPercent example_config) \<and>
   snd (Aidl_setTargetWorkDuration example_config working_backend (- 1000000) (running_wrapper, [])) = []"
  by (simp add: Aidl_setTargetWorkDuration_eq Aidl_isPowerHintSessionRunning_def
      example_config_def running_wrapper_def deviation_negative)


text \<open>
  Claim C10. Whenever \<^verbatim>\<open>setTargetWorkDuration(d)\<close> of the AIDL wrapper issues a push, the
  call logged is \<^verbatim>\<open>updateTargetWorkDuration(d)\<close> and \<open>mLastTargetDurationSent\<close> is \<open>d\<close>
  afterwards whether or not the call succeeded. When it failed, the only other change is
  that \<open>mShouldReconnectHal\<close> is set: the next deviation checks compare against \<open>d\<close>, and
  the next actual durations are adjusted with \<open>d\<close> as the last target sent, although the
  backend never received it.
\<close>

theorem setTargetWorkDuration_failed_push_keeps_lastSent:
  assumes "snd (Aidl_setTargetWorkDuration cfg B d (w, lg)) \<noteq> lg"
  shows "snd (Aidl_setTargetWorkDuration cfg B d (w, lg)) = lg @ [UpdateTargetWorkDuration d] \<and>
    mLastTargetDurationSent (fst (Aidl_setTargetWorkDuration cfg B d (w, lg))) = d \<and>
    (B lg (UpdateTargetWorkDuration d) = None \<longrightarrow>
       fst (Aidl_setTargetWorkDuration cfg B d (w, lg)) =
         w\<lparr>mTargetDuration := d, mLastTargetDurationSent := d, mShouldReconnectHal := True\<rparr> \<and>
       (\<forall>d'. Aidl_shouldSetTargetDuration cfg (fst (Aidl_setTargetWorkDuration cfg B d (w, lg))) d' =
          (0 < d' \<and> fp_ge (deviation d d') (kAllowedTargetDeviationPercent cfg))) \<and>
       (\<forall>a. Aidl_reportedDuration cfg (fst (Aidl_setTargetWorkDuration cfg B d (w, lg))) a =
          (if sNormalizeTarget cfg then a + (d - d)
           else if d \<noteq> kDefaultTarget cfg \<and> d \<noteq> 0 then scale_actual (longDoublePrecision cfg) d d a
           else a)))"
  using assms
  by (auto simp: Aidl_setTargetWorkDuration_eq Aidl_shouldSetTargetDuration_def
      Aidl_reportedDuration_def split: if_splits)

theorem setTargetWorkDuration_failed_push_keeps_lastSent_witness:
  "snd (Aidl_setTargetWorkDuration example_config failing_backend 1150000 (running_wrapper, [])) \<noteq> [] \<and>
   failing_backend [] (UpdateTargetWorkDuration 1150000) = None \<and>
   mLastTargetDurationSent
     (fst (Aidl_setTargetWorkDuration example_config failing_backend 1150000 (running_wrapper, []))) =
     1150000 \<and>
   mShouldReconnectHal
     (fst (Aidl_setTargetWorkDuration example_config failing_backend 1150000 (running_wrapper, [])))"
proof -
  have h: "snd (Aidl_setTargetWorkDuration example_config failing_backend 1150000
      (running_wrapper, [])) \<noteq> []"
    by (simp add: Aidl_setTargetWorkDuration_eq example_config_def running_wrapper_def
        deviation_15_percent)
  have f: "failing_backend [] (UpdateTargetWorkDuration 1150000) = None"
    by (simp add: failing_backend_def)
  show ?thesis
    using h f setTargetWorkDuration_failed_push_keeps_lastSent [OF h] by simp
qed

subsection \<open>Actual durations\<close>

text \<open>
  Claim C1, as amended. Whenever \<^verbatim>\<open>sendActualWorkDuration\<close> of the AIDL wrapper decides
  to flush (non-negative duration, running session, \<^verbatim>\<open>shouldReportActualDurationsNow\<close>
  true once the record is queued), it issues one \<^verbatim>\<open>reportActualWorkDuration\<close> with the
  whole queue, the new record last, and the queue is empty afterwards whether the call
  succeeded or failed; a failure sets \<open>mShouldReconnectHal\<close>.
\<close>

theorem sendActualWorkDuration_flush_clears_queue:
  assumes "0 \<le> a" and "Aidl_isPowerHintSessionRunning w"
    and "Aidl_shouldReportActualDurationsNow cfg now1 (Aidl_queueActual cfg a ts w)"
  shows "snd (Aidl_sendActualWorkDuration cfg B now1 now2 a ts (w, lg)) =
      lg @ [ReportActualWorkDuration (mPowerHintQueue w @
        [\<lparr>durationNanos = Aidl_reportedDuration cfg w a, timeStampNanos = ts\<rparr>])] \<and>
    mPowerHintQueue (fst (Aidl_sendActualWorkDuration cfg B now1 now2 a ts (w, lg))) = [] \<and>
    mShouldReconnectHal (fst (Aidl_sendActualWorkDuration cfg B now1 now2 a ts (w, lg))) =
      (mShouldReconnectHal w \<or>
       B lg (ReportActualWorkDuration (mPowerHintQueue w @
         [\<lparr>durationNanos = Aidl_reportedDuration cfg w a, timeStampNanos = ts\<rparr>])) = None)"
  using assms
  by (simp add: Aidl_sendActualWorkDuration_eq Aidl_isPowerHintSessionRunning_def
      mPowerHintQueue_queueActual)

theorem sendActualWorkDuration_flush_clears_queue_witness:
  "(0::int) \<le> 9000000 \<and> Aidl_isPowerHintSessionRunning running_wrapper \<and>
   Aidl_shouldReportActualDurationsNow example_config 0
     (Aidl_queueActual example_config 9000000 5 running_wrapper) \<and>
   mPowerHintQueue (fst (Aidl_sendActualWorkDuration example_config working_backend 0 0
     9000000 5 (running_wrapper, []))) = [] \<and>
   \<not> mShouldReconnectHal (fst (Aidl_sendActualWorkDuration example_config working_backend 0 0
     9000000 5 (running_wrapper, [])))"
proof -
  have a: "(0::int) \<le> 9000000"
    by simp
  have r: "Aidl_isPowerHintSessionRunning running_wrapper"
    by (simp add: Aidl_isPowerHintSessionRunning_def running_wrapper_def)
  have f: "Aidl_shouldReportActualDurationsNow example_config 0
      (Aidl_queueActual example_config 9000000 5 running_wrapper)"
    by (simp add: never_reported_flushes running_wrapper_def)
  show ?thesis
    using a r f sendActualWorkDuration_flush_clears_queue [OF a r f, of working_backend 0 "[]"]
    by (simp add: working_backend_def running_wrapper_def)
qed

text \<open>
  Claim C1 as stated says that after a failed send the records stay queued. They do not:
  against a backend where every call fails, the first report of a running session is
  attempted, fails, and leaves the queue empty.
\<close>

theorem sendActualWorkDuration_failed_send_drops_batch:
  "Aidl_shouldReportActualDurationsNow example_config 0
     (Aidl_queueActual example_config 9000000 5 running_wrapper) \<and>
   failing_backend [] (ReportActualWorkDuration
     (mPowerHintQueue (Aidl_queueActual example_config 9000000 5 running_wrapper))) = None \<and>
   mPowerHintQueue (Aidl_queueActual example_config 9000000 5 running_wrapper) \<noteq> [] \<and>
   mPowerHintQueue (fst (Aidl_sendActualWorkDuration example_config failing_backend 0 0
     9000000 5 (running_wrapper, []))) = []"
  by (simp add: Aidl_sendActualWorkDuration_eq never_reported_flushes mPowerHintQueue_queueActual
      failing_backend_def running_wrapper_def)







section \<open>The connection ladder\<close>

subsection \<open>\<^verbatim>\<open>getPowerHal\<close> in closed form\<close>











lemma disconnected_fields [simp]:
  "sHasHal (disconnected c) = sHasHal c"
  "mReconnectPowerHal (disconnected c) = False"
  "mPowerHintEnabled (disconnected c) = mPowerHintEnabled c"
  "mSupportsPowerHint (disconnected c) = mSupportsPowerHint c"
  "sHalWrapper (disconnected c) = None"
  by (simp_all add: disconnected_def resetHalWrapper_def dropOnReconnect_def split: option.splits)






lemma extends_refl [simp]: "extends lg lg"
  by (simp add: extends_def)








lemma halLog_useCached [simp]: "halLog (snd (useCached c)) = halLog c"
  by (simp add: useCached_def cacheSupport_def)

lemma sHalWrapper_useCached [simp]: "sHalWrapper (snd (useCached c)) = sHalWrapper c"
  by (simp add: useCached_def cacheSupport_def)







lemma sameFrontEnd_trans: "sameFrontEnd a b \<Longrightarrow> sameFrontEnd b c \<Longrightarrow> sameFrontEnd a c"
  by (simp add: sameFrontEnd_def)







lemma isToggle_toggleCall [simp]: "isToggle (toggleCall h e)"
  by (cases h) simp_all












lemma threadIds_setTargetWorkDuration [simp]:
  "HalWrapper_getPowerHintSessionThreadIds (fst (HalWrapper_setTargetWorkDuration cfg B d (h, lg))) =
     HalWrapper_getPowerHintSessionThreadIds h"
  by (cases h) (auto simp: Aidl_setTargetWorkDuration_def Let_def)

lemma threadIds_sendActualWorkDuration [simp]:
  "HalWrapper_getPowerHintSessionThreadIds
     (fst (HalWrapper_sendActualWorkDuration cfg B n1 n2 d t (h, lg))) =
     HalWrapper_getPowerHintSessionThreadIds h"
  by (cases h) (auto simp: Aidl_sendActualWorkDuration_def Aidl_queueActual_def Let_def)

lemma threadIds_Aidl_startPowerHintSession [simp]:
  "mPowerHintThreadIds (fst (snd (Aidl_startPowerHintSession B (w, lg)))) = mPowerHintThreadIds w"
  by (auto simp: Aidl_startPowerHintSession_def Let_def)

lemma oldIds_alt: "oldPowerHintSessionThreadIds c = threadIdsOf (sHalWrapper c)"
  by (simp add: oldPowerHintSessionThreadIds_def threadIdsOf_def)

lemma threadIdsOf_simps [simp]:
  "threadIdsOf None = []"
  "threadIdsOf (Some Hidl) = []"
  "threadIdsOf (Some (Aidl w)) = mPowerHintThreadIds w"
  by (simp_all add: threadIdsOf_def)

lemma consistent_alt:
  "consistent c =
     ((\<not> sHasHal c \<longrightarrow> sHalWrapper c = None \<and> \<not> mReconnectPowerHal c) \<and>
      (threadIdsOf (sHalWrapper c) \<noteq> [] \<longrightarrow> mSupportsPowerHint c = Some True))"
  by (simp add: consistent_def oldIds_alt)




lemma disconnected_more [simp]:
  "mSupportsPowerHint (disconnected c) = mSupportsPowerHint c"
  "mPowerHintEnabled (disconnected c) = mPowerHintEnabled c"
  by (simp_all add: disconnected_def resetHalWrapper_def dropOnReconnect_def split: option.splits)









lemma consistent_front_end [simp]:
  "consistent (c\<lparr>mSendUpdateImminent := a\<rparr>) = consistent c"
  "consistent (c\<lparr>mLastScreenUpdatedTime := t\<rparr>) = consistent c"
  "consistent (c\<lparr>mScreenUpdateTimer := ti\<rparr>) = consistent c"
  "consistent (c\<lparr>mBootFinished := b\<rparr>) = consistent c"
  "consistent (c\<lparr>mPowerHintEnabled := en\<rparr>) = consistent c"
  "consistent (c\<lparr>mExpensiveDisplays := ds\<rparr>) = consistent c"
  "consistent (c\<lparr>mNotifiedExpensiveRendering := n\<rparr>) = consistent c"
  "consistent (c\<lparr>mPowerHintSessionRunning := r\<rparr>) = consistent c"
  "consistent (c\<lparr>halLog := lg\<rparr>) = consistent c"
  by (simp_all add: consistent_alt)


















lemma mPowerHintSessionRunning_disconnected [simp]:
  "mPowerHintSessionRunning (disconnected c) = False"
  by (simp add: disconnected_def)






section \<open>The public operations\<close>










text \<open>
  Claim C5 fails on the code. Against a backend with no service, the first operation that
  needs the HAL finds neither generation and clears \<open>sHasHal\<close>; the cache of
  \<^verbatim>\<open>supportsPowerHintSession\<close> is still empty. The next call of
  \<^verbatim>\<open>supportsPowerHintSession\<close>, and the next call of \<^verbatim>\<open>setTargetWorkDuration\<close> once
  power hints are enabled, dereference the null pointer \<^verbatim>\<open>getPowerHal\<close> returned.
\<close>

theorem supportsPowerHintSession_null_dereference:
  "map_sum id sHasHal (run example_config failing_backend [SetExpensiveRenderingExpected 0 True]
     (PowerAdvisor_ctor example_config)) = Inr False \<and>
   map_sum id mSupportsPowerHint (run example_config failing_backend [SetExpensiveRenderingExpected 0 True]
     (PowerAdvisor_ctor example_config)) = Inr None \<and>
   run example_config failing_backend [SetExpensiveRenderingExpected 0 True, SupportsPowerHintSession]
     (PowerAdvisor_ctor example_config) = Inl NullPointerDereference \<and>
   run example_config failing_backend
     [SetExpensiveRenderingExpected 0 True, EnablePowerHint True, SetTargetWorkDuration 16000000]
     (PowerAdvisor_ctor example_config) = Inl NullPointerDereference"
  by code_simp



end
